theory Spec2Isabelle
  imports Main "HOL-Library.Sublist"
begin

section \<open>The alert generator of \<open>src/generate_alerts.py\<close>\<close>

text \<open>
  The generator reads \<open>rules.yml\<close>, renders one \<open>create_alert\<close> statement per alert rule
  and writes the statements, separated by notebook cell markers, to
  \<open>src/generated_alerts.sql\<close>. This theory embeds its four functions (\<open>load_rules\<close>,
  \<open>generate_alert_sql\<close>, \<open>generate_all_alerts_sql\<close>, \<open>main\<close>) as HOL functions and proves
  the properties the specification states about them.
\<close>

subsection \<open>Python values\<close>

text \<open>
  The configuration is whatever \<open>yaml.safe_load\<close> returns, so the functions work on untyped
  Python values. \<open>PDict\<close> is a \<open>dict\<close> as the list of its items in insertion order.
  \<open>POther t\<close> stands for a value of any other type YAML constructs (a float, a list, a
  date): the generator can do nothing with such a value but print it, and \<open>t\<close> is the text
  \<open>str\<close> returns for it. Strings are byte strings; text outside ASCII is its UTF-8 encoding.
\<close>

datatype pyval =
    PNone
  | PBool bool
  | PInt int
  | PStr string
  | POther string
  | PDict "(pyval \<times> pyval) list"

text \<open>The exceptions the run can meet. \<open>KeyError\<close> carries the missing key.\<close>

datatype py_error =
    KeyError string
  | TypeError
  | AttributeError
  | ValueError
  | IndexError
  | FileNotFoundError
  | YAMLError string
  | OtherError string

text \<open>
  The parts of the Python library that the generator calls and this theory does not define:
  \<^item> \<open>safe_load\<close>: \<open>yaml.safe_load\<close> on the text of the file;
  \<^item> \<open>format_field\<close>: what \<open>str.format(catalog=c, schema=s)\<close> does with a replacement field
    other than \<open>{catalog}\<close> and \<open>{schema}\<close>, given \<open>c\<close>, \<open>s\<close> and the field's name,
    conversion and format specification (an unknown name raises \<open>KeyError\<close>, a number
    \<open>IndexError\<close>, an attribute, a conversion or a specification yields some text);
  \<^item> \<open>dict_str\<close>: \<open>str\<close> of a \<open>dict\<close>.
  Every function below takes them as its first argument, and every theorem holds whatever
  they are.
\<close>

record python =
  safe_load :: "string \<Rightarrow> py_error + pyval"
  format_field :: "pyval \<Rightarrow> pyval \<Rightarrow> string \<Rightarrow> char option \<Rightarrow> string \<Rightarrow> py_error + string"
  dict_str :: "(pyval \<times> pyval) list \<Rightarrow> string"

definition sq :: char where
  "sq = CHR 0x27"

definition nl :: string where
  "nl = [CHR 0x0A]"

text \<open>\<open>str(i)\<close> of an integer: its decimal digits, with a minus sign when negative.\<close>

definition digit_char :: "nat \<Rightarrow> char" where
  "digit_char d = ''0123456789'' ! d"

fun str_nat :: "nat \<Rightarrow> string" where
  "str_nat n = (if n < 10 then [digit_char n] else str_nat (n div 10) @ [digit_char (n mod 10)])"

declare str_nat.simps [simp del]

definition str_int :: "int \<Rightarrow> string" where
  "str_int i = (if i < 0 then CHR ''-'' # str_nat (nat (- i)) else str_nat (nat i))"

text \<open>\<open>str(v)\<close>, which is also \<open>format(v, '')\<close>: what an f-string field \<open>{v}\<close> prints.\<close>

fun py_str :: "python \<Rightarrow> pyval \<Rightarrow> string" where
  "py_str L PNone = ''None''"
| "py_str L (PBool b) = (if b then ''True'' else ''False'')"
| "py_str L (PInt i) = str_int i"
| "py_str L (PStr s) = s"
| "py_str L (POther t) = t"
| "py_str L (PDict d) = dict_str L d"

text \<open>\<open>s.lower()\<close>, on the ASCII letters.\<close>

definition lower_char :: "char \<Rightarrow> char" where
  "lower_char c =
     (case map_of (zip ''ABCDEFGHIJKLMNOPQRSTUVWXYZ'' ''abcdefghijklmnopqrstuvwxyz'') c of
        Some l \<Rightarrow> l
      | None \<Rightarrow> c)"

definition py_lower :: "string \<Rightarrow> string" where
  "py_lower s = map lower_char s"

text \<open>\<open>s.replace(old, new)\<close> for a one-character \<open>old\<close>.\<close>

fun py_replace_char :: "char \<Rightarrow> string \<Rightarrow> string \<Rightarrow> string" where
  "py_replace_char old new [] = []"
| "py_replace_char old new (c # cs) =
     (if c = old then new @ py_replace_char old new cs else c # py_replace_char old new cs)"

text \<open>\<open>sep.join(parts)\<close>.\<close>

fun py_join :: "string \<Rightarrow> string list \<Rightarrow> string" where
  "py_join sep [] = []"
| "py_join sep [p] = p"
| "py_join sep (p # q # ps) = p @ sep @ py_join sep (q # ps)"

text \<open>
  \<open>d[k]\<close> with a string key: \<open>KeyError\<close> when a \<open>dict\<close> lacks the key, \<open>TypeError\<close> when
  the value is no \<open>dict\<close> (a string, a list, a number and \<open>None\<close> cannot be subscripted by
  a string).
\<close>

fun py_getitem :: "pyval \<Rightarrow> string \<Rightarrow> py_error + pyval" where
  "py_getitem (PDict d) k =
     (case map_of d (PStr k) of None \<Rightarrow> Inl (KeyError k) | Some v \<Rightarrow> Inr v)"
| "py_getitem v k = Inl TypeError"

text \<open>\<open>d.get(k, default)\<close>: only a \<open>dict\<close> has the method.\<close>

fun py_get :: "pyval \<Rightarrow> string \<Rightarrow> pyval \<Rightarrow> py_error + pyval" where
  "py_get (PDict d) k dflt = (case map_of d (PStr k) of None \<Rightarrow> Inr dflt | Some v \<Rightarrow> Inr v)"
| "py_get v k dflt = Inl AttributeError"

text \<open>\<open>d.items()\<close>.\<close>

fun py_items :: "pyval \<Rightarrow> py_error + (pyval \<times> pyval) list" where
  "py_items (PDict d) = Inr d"
| "py_items v = Inl AttributeError"

text \<open>\<open>len(d)\<close> of a \<open>dict\<close> or a string; the other values here have no length.\<close>

fun py_len :: "pyval \<Rightarrow> py_error + nat" where
  "py_len (PDict d) = Inr (length d)"
| "py_len (PStr s) = Inr (length s)"
| "py_len v = Inl TypeError"

text \<open>Looking up the method \<open>format\<close>: only \<open>str\<close> has it.\<close>

fun py_format_attr :: "pyval \<Rightarrow> py_error + string" where
  "py_format_attr (PStr s) = Inr s"
| "py_format_attr v = Inl AttributeError"

subsection \<open>\<open>str.format\<close>\<close>

text \<open>
  \<open>template.format(catalog=c, schema=s)\<close> copies the literal text of the template and
  expands its replacement fields, left to right, as CPython's \<open>MarkupIterator_next\<close> and
  \<open>parse_field\<close> do: \<open>{{\<close> and \<open>}}\<close> are literal braces, a lone \<open>}\<close> and a \<open>{\<close> at the
  end raise \<open>ValueError\<close>, any other \<open>{\<close> opens a field.

  \<open>scan_name\<close> reads a field name up to \<open>}\<close>, \<open>:\<close> or \<open>!\<close> and returns the name, that
  character and the rest. The flag says that a \<open>[\<close> is open: up to the next \<open>]\<close> every
  character belongs to the name.
\<close>

fun scan_name :: "bool \<Rightarrow> string \<Rightarrow> py_error + (string \<times> char \<times> string)" where
  "scan_name b [] = Inl ValueError"
| "scan_name True (c # cs) =
     (case scan_name (c \<noteq> CHR '']'') cs of
        Inl e \<Rightarrow> Inl e
      | Inr (n, t, r) \<Rightarrow> Inr (c # n, t, r))"
| "scan_name False (c # cs) =
     (if c = CHR ''{'' then Inl ValueError
      else if c = CHR ''}'' \<or> c = CHR '':'' \<or> c = CHR ''!'' then Inr ([], c, cs)
      else (case scan_name (c = CHR ''['') cs of
              Inl e \<Rightarrow> Inl e
            | Inr (n, t, r) \<Rightarrow> Inr (c # n, t, r)))"

text \<open>
  \<open>scan_spec\<close> reads a format specification up to the \<open>}\<close> that closes the field; the
  counter is the number of braces opened inside the specification.
\<close>

fun scan_spec :: "nat \<Rightarrow> string \<Rightarrow> py_error + (string \<times> string)" where
  "scan_spec k [] = Inl ValueError"
| "scan_spec k (c # cs) =
     (if c = CHR ''}'' \<and> k = 0 then Inr ([], cs)
      else (case scan_spec (if c = CHR ''{'' then Suc k else if c = CHR ''}'' then k - 1 else k) cs of
              Inl e \<Rightarrow> Inl e
            | Inr (sp, r) \<Rightarrow> Inr (c # sp, r)))"

text \<open>
  \<open>parse_field\<close> reads one replacement field from the text after its \<open>{\<close>: the name, the
  conversion after \<open>!\<close> if any, the specification after \<open>:\<close> (empty if none), and the rest
  of the template.
\<close>

definition parse_field :: "string \<Rightarrow> py_error + (string \<times> char option \<times> string \<times> string)" where
  "parse_field s =
     (case scan_name False s of
        Inl e \<Rightarrow> Inl e
      | Inr (name, t, r) \<Rightarrow>
          if t = CHR ''}'' then Inr (name, None, [], r)
          else if t = CHR ''!'' then
            (case r of
               [] \<Rightarrow> Inl ValueError
             | cv # r1 \<Rightarrow>
                 (case r1 of
                    [] \<Rightarrow> Inl ValueError
                  | c # r2 \<Rightarrow>
                      if c = CHR ''}'' then Inr (name, Some cv, [], r2)
                      else if c \<noteq> CHR '':'' then Inl ValueError
                      else (case scan_spec 0 r2 of
                              Inl e \<Rightarrow> Inl e
                            | Inr (sp, rest) \<Rightarrow> Inr (name, Some cv, sp, rest))))
          else (case scan_spec 0 r of
                  Inl e \<Rightarrow> Inl e
                | Inr (sp, rest) \<Rightarrow> Inr (name, None, sp, rest)))"

text \<open>
  The fields \<open>{catalog}\<close> and \<open>{schema}\<close> print their keyword argument as \<open>format(v, '')\<close>
  does; every other field is left to the library.
\<close>

definition render_field ::
  "python \<Rightarrow> pyval \<Rightarrow> pyval \<Rightarrow> string \<Rightarrow> char option \<Rightarrow> string \<Rightarrow> py_error + string" where
  "render_field L c s name conv spec =
     (if name = ''catalog'' \<and> conv = None \<and> spec = [] then Inr (py_str L c)
      else if name = ''schema'' \<and> conv = None \<and> spec = [] then Inr (py_str L s)
      else format_field L c s name conv spec)"

lemma scan_name_shorter: "scan_name b s = Inr (n, t, r) \<Longrightarrow> length r < length s"
  by (induction b s arbitrary: n t r rule: scan_name.induct)
     (fastforce split: if_splits sum.splits)+

lemma scan_spec_shorter: "scan_spec k s = Inr (sp, r) \<Longrightarrow> length r < length s"
  by (induction k s arbitrary: sp r rule: scan_spec.induct)
     (fastforce split: if_splits sum.splits)+

lemma parse_field_shorter: "parse_field s = Inr (n, cv, sp, r) \<Longrightarrow> length r < length s"
  unfolding parse_field_def
  by (auto split: sum.splits if_splits list.splits prod.splits
           dest!: scan_name_shorter scan_spec_shorter)

function py_format :: "python \<Rightarrow> pyval \<Rightarrow> pyval \<Rightarrow> string \<Rightarrow> py_error + string" where
  "py_format L c s [] = Inr []"
| "py_format L c s (x # xs) =
     (if x = CHR ''{'' then
        (case xs of
           [] \<Rightarrow> Inl ValueError
         | y # ys \<Rightarrow>
             if y = CHR ''{'' then
               (case py_format L c s ys of Inl e \<Rightarrow> Inl e | Inr out \<Rightarrow> Inr (x # out))
             else
               (case parse_field xs of
                  Inl e \<Rightarrow> Inl e
                | Inr (name, conv, spec, rest) \<Rightarrow>
                    (case render_field L c s name conv spec of
                       Inl e \<Rightarrow> Inl e
                     | Inr txt \<Rightarrow>
                         (case py_format L c s rest of
                            Inl e \<Rightarrow> Inl e
                          | Inr out \<Rightarrow> Inr (txt @ out)))))
      else if x = CHR ''}'' then
        (case xs of
           [] \<Rightarrow> Inl ValueError
         | y # ys \<Rightarrow>
             if y = CHR ''}'' then
               (case py_format L c s ys of Inl e \<Rightarrow> Inl e | Inr out \<Rightarrow> Inr (x # out))
             else Inl ValueError)
      else (case py_format L c s xs of Inl e \<Rightarrow> Inl e | Inr out \<Rightarrow> Inr (x # out)))"
  by pat_completeness auto
termination
  by (relation "measure (\<lambda>(L, c, s, t). length t)")
     (auto dest: parse_field_shorter)

declare py_format.simps [simp del]

subsection \<open>\<open>generate_alert_sql\<close>\<close>

text \<open>
  A call that raises ends the function that makes it: \<open>and_then r f\<close> goes on with \<open>f\<close>
  when \<open>r\<close> is a value and is the error of \<open>r\<close> otherwise.
\<close>

definition and_then :: "'e + 'a \<Rightarrow> ('a \<Rightarrow> 'e + 'b) \<Rightarrow> 'e + 'b" where
  "and_then r f = (case r of Inl e \<Rightarrow> Inl e | Inr x \<Rightarrow> f x)"

text \<open>
  The statement of one alert. The template is formatted first; then the f-string evaluates
  its fields from left to right, and the first subscript that fails ends the call. The
  value is the concatenation of the f-string's literal pieces and printed fields.
\<close>

definition default_cron :: string where
  "default_cron = ''0 0 10 1/7 * ?''"

definition generate_alert_sql :: "python \<Rightarrow> pyval \<Rightarrow> pyval \<Rightarrow> py_error + string" where
  "generate_alert_sql L alert_config global_config =
    (and_then (py_getitem alert_config ''query_template'') (\<lambda>query_template.
     and_then (py_format_attr query_template) (\<lambda>template.
     and_then (py_getitem global_config ''catalog'') (\<lambda>catalog.
     and_then (py_getitem global_config ''schema'') (\<lambda>schema.
     and_then (py_format L catalog schema template) (\<lambda>query_text.
     and_then (py_getitem alert_config ''description'') (\<lambda>description.
     and_then (py_getitem alert_config ''display_name'') (\<lambda>display_name.
     and_then (py_getitem global_config ''warehouse_id'') (\<lambda>warehouse_id.
     and_then (py_getitem alert_config ''comparison_operator'') (\<lambda>comparison_operator.
     and_then (py_getitem alert_config ''threshold_value'') (\<lambda>threshold_value.
     and_then (py_get alert_config ''empty_result_state'' (PStr ''UNKNOWN'')) (\<lambda>empty_result_state.
     and_then (py_getitem global_config ''user_email'') (\<lambda>user_email.
     and_then (py_getitem global_config ''notify_on_ok'') (\<lambda>notify_on_ok.
     and_then (py_getitem global_config ''retrigger_seconds'') (\<lambda>retrigger_seconds.
     and_then (py_get global_config ''cron_schedule'' (PStr default_cron)) (\<lambda>global_cron.
     and_then (py_get alert_config ''cron_schedule'' global_cron) (\<lambda>cron_schedule.
     and_then (py_getitem global_config ''timezone_id'') (\<lambda>timezone_id.
     and_then (py_getitem global_config ''pause_status'') (\<lambda>pause_status.
     Inr (concat
       [''-- '', py_str L description, nl,
        ''SELECT create_alert('', nl,
        ''  display_name => '', [sq], py_str L display_name, [sq], '','', nl,
        ''  query_text => '', [sq], py_replace_char sq [sq, sq] query_text, [sq], '','', nl,
        ''  warehouse_id => '', py_str L warehouse_id, '','', nl,
        ''  comparison_operator => '', [sq], py_str L comparison_operator, [sq], '','', nl,
        ''  threshold_value => '', py_str L threshold_value, '','', nl,
        ''  empty_result_state => '', [sq], py_str L empty_result_state, [sq], '','', nl,
        ''  user_email => '', py_str L user_email, '','', nl,
        ''  notify_on_ok => '', py_lower (py_str L notify_on_ok), '','', nl,
        ''  retrigger_seconds => '', py_str L retrigger_seconds, '','', nl,
        ''  cron_schedule => '', [sq], py_str L cron_schedule, [sq], '','', nl,
        ''  timezone_id => '', [sq], py_str L timezone_id, [sq], '','', nl,
        ''  pause_status => '', [sq], py_str L pause_status, [sq], nl,
        '') as alert;'']))))))))))))))))))))"

subsection \<open>\<open>generate_all_alerts_sql\<close>\<close>

definition separator :: string where
  "separator = ''-- COMMAND ----------''"

definition header_parts :: "string list" where
  "header_parts =
     [''-- Databricks Security Detection Alerts'',
      ''-- Generated from rules.yml'',
      [],
      separator,
      []]"

text \<open>
  The loop over \<open>alerts.items()\<close>: each statement is appended to \<open>sql_parts\<close> with an empty
  line, the separator and another empty line. A statement that fails ends the loop, and
  nothing of \<open>sql_parts\<close> is returned.
\<close>

fun render_alerts ::
  "python \<Rightarrow> pyval \<Rightarrow> (pyval \<times> pyval) list \<Rightarrow> string list \<Rightarrow> py_error + string list" where
  "render_alerts L global_config [] sql_parts = Inr sql_parts"
| "render_alerts L global_config ((alert_name, alert_config) # items) sql_parts =
     (case generate_alert_sql L alert_config global_config of
        Inl e \<Rightarrow> Inl e
      | Inr sql \<Rightarrow>
          render_alerts L global_config items (sql_parts @ [sql, [], separator, []]))"

definition generate_all_alerts_sql :: "python \<Rightarrow> pyval \<Rightarrow> py_error + string" where
  "generate_all_alerts_sql L rules =
    (and_then (py_getitem rules ''global'') (\<lambda>global_config.
     and_then (py_getitem rules ''alerts'') (\<lambda>alerts.
     and_then (py_items alerts) (\<lambda>items.
     and_then (render_alerts L global_config items header_parts) (\<lambda>sql_parts.
     Inr (py_join nl sql_parts))))))"

subsection \<open>\<open>load_rules\<close> and \<open>main\<close>\<close>

text \<open>
  The world of a run: the files by path, the error that opening a path for writing raises
  there (if any), and the lines printed so far. A file that exists can be read, two paths
  name two files, and a file that has been opened is written in full. A printed line is
  kept by its kind and its fields; the decorative glyphs are left out.
\<close>

datatype message =
    Generated string
  | Total_alerts nat
  | Summary_header
  | Summary_alert string string
  | Summary_threshold string string
  | Rules_not_found
  | Yaml_parse_error string
  | Unexpected_error py_error

record world =
  files :: "string \<Rightarrow> string option"
  open_w_error :: "string \<Rightarrow> py_error option"
  console :: "message list"

definition rules_file :: string where
  "rules_file = ''rules.yml''"

definition output_file :: string where
  "output_file = ''src/generated_alerts.sql''"

definition print :: "message \<Rightarrow> world \<Rightarrow> world" where
  "print m w = w\<lparr>console := console w @ [m]\<rparr>"

definition load_rules :: "python \<Rightarrow> world \<Rightarrow> py_error + pyval" where
  "load_rules L w =
     (case files w rules_file of
        None \<Rightarrow> Inl FileNotFoundError
      | Some content \<Rightarrow> safe_load L content)"

text \<open>\<open>open(path, 'w')\<close> and \<open>f.write(content)\<close>: the file is created or replaced.\<close>

definition write_file :: "string \<Rightarrow> string \<Rightarrow> world \<Rightarrow> py_error + world" where
  "write_file path content w =
     (case open_w_error w path of
        Some e \<Rightarrow> Inl e
      | None \<Rightarrow> Inr (w\<lparr>files := (files w)(path := Some content)\<rparr>))"

text \<open>The three \<open>except\<close> clauses of \<open>main\<close>, in their order.\<close>

fun report :: "py_error \<Rightarrow> world \<Rightarrow> world" where
  "report FileNotFoundError w = print Rules_not_found w"
| "report (YAMLError m) w = print (Yaml_parse_error m) w"
| "report e w = print (Unexpected_error e) w"

text \<open>
  The summary loop prints two lines per alert; a subscript that fails ends it with the
  lines printed so far.
\<close>

fun print_summary :: "python \<Rightarrow> (pyval \<times> pyval) list \<Rightarrow> world \<Rightarrow> py_error option \<times> world" where
  "print_summary L [] w = (None, w)"
| "print_summary L ((alert_name, config) # items) w =
     (case py_getitem config ''display_name'' of Inl e \<Rightarrow> (Some e, w) | Inr display_name \<Rightarrow>
     (case py_getitem config ''description'' of Inl e \<Rightarrow> (Some e, w) | Inr description \<Rightarrow>
     (let w1 = print (Summary_alert (py_str L display_name) (py_str L description)) w in
     (case py_getitem config ''comparison_operator'' of Inl e \<Rightarrow> (Some e, w1) | Inr comparison_operator \<Rightarrow>
     (case py_getitem config ''threshold_value'' of Inl e \<Rightarrow> (Some e, w1) | Inr threshold_value \<Rightarrow>
        print_summary L items
          (print (Summary_threshold (py_str L comparison_operator) (py_str L threshold_value)) w1))))))"

text \<open>
  The body of the \<open>try\<close> block: the error it ends with, if any, and the world at that
  point. The output file is opened only after all the SQL has been generated.
\<close>

definition main_body :: "python \<Rightarrow> world \<Rightarrow> py_error option \<times> world" where
  "main_body L w =
    (case load_rules L w of Inl e \<Rightarrow> (Some e, w) | Inr rules \<Rightarrow>
    (case generate_all_alerts_sql L rules of Inl e \<Rightarrow> (Some e, w) | Inr sql_content \<Rightarrow>
    (case write_file output_file sql_content w of Inl e \<Rightarrow> (Some e, w) | Inr w1 \<Rightarrow>
    (let w2 = print (Generated output_file) w1 in
    (case py_getitem rules ''alerts'' of Inl e \<Rightarrow> (Some e, w2) | Inr alerts \<Rightarrow>
    (case py_len alerts of Inl e \<Rightarrow> (Some e, w2) | Inr n \<Rightarrow>
    (let w3 = print Summary_header (print (Total_alerts n) w2) in
    (case py_getitem rules ''alerts'' of Inl e \<Rightarrow> (Some e, w3) | Inr alerts \<Rightarrow>
    (case py_items alerts of Inl e \<Rightarrow> (Some e, w3) | Inr items \<Rightarrow>
       print_summary L items w3)))))))))"

definition main :: "python \<Rightarrow> world \<Rightarrow> world" where
  "main L w =
     (case main_body L w of
        (Some e, w') \<Rightarrow> report e w'
      | (None, w') \<Rightarrow> w')"

section \<open>The vocabulary of the specification\<close>

text \<open>
  \<open>supplies v k\<close> is the value a mapping supplies for a key (\<open>None\<close> when the key is
  absent or \<open>v\<close> is no mapping); \<open>item v k\<close> is that value where the key is known to be
  there.
\<close>

definition supplies :: "pyval \<Rightarrow> string \<Rightarrow> pyval option" where
  "supplies v k = (case v of PDict d \<Rightarrow> map_of d (PStr k) | _ \<Rightarrow> None)"

definition item :: "pyval \<Rightarrow> string \<Rightarrow> pyval" where
  "item v k = (case supplies v k of Some x \<Rightarrow> x | None \<Rightarrow> PNone)"

text \<open>
  A single-quoted SQL literal, the names of the arguments of \<open>create_alert\<close> in the order
  of the specification, and the statement that binds a list of named arguments: a comment
  line with the description, then one line per argument.
\<close>

definition quoted :: "string \<Rightarrow> string" where
  "quoted s = sq # s @ [sq]"

definition arg_order :: "string list" where
  "arg_order =
     [''display_name'', ''query_text'', ''warehouse_id'', ''comparison_operator'',
      ''threshold_value'', ''empty_result_state'', ''user_email'', ''notify_on_ok'',
      ''retrigger_seconds'', ''cron_schedule'', ''timezone_id'', ''pause_status'']"

definition named_arg :: "string \<times> string \<Rightarrow> string" where
  "named_arg a = ''  '' @ fst a @ '' => '' @ snd a"

definition create_alert_statement :: "string \<Rightarrow> (string \<times> string) list \<Rightarrow> string" where
  "create_alert_statement description args =
     ''-- '' @ description @ nl @
     ''SELECT create_alert('' @ nl @
     py_join ('','' @ nl) (map named_arg args) @ nl @
     '') as alert;''"

text \<open>
  The template with its two placeholders replaced, as the specification words it: one pass
  from left to right, each \<open>{catalog}\<close> and \<open>{schema}\<close> giving way to its value and every
  other character kept. \<open>only_placeholders\<close> holds of a template whose braces all belong
  to these placeholders. \<open>double_quotes\<close> is SQL's escaping of a string literal.
\<close>

function substitute_placeholders :: "string \<Rightarrow> string \<Rightarrow> string \<Rightarrow> string" where
  "substitute_placeholders c s [] = []"
| "substitute_placeholders c s (x # xs) =
     (if prefix ''{catalog}'' (x # xs) then c @ substitute_placeholders c s (drop 8 xs)
      else if prefix ''{schema}'' (x # xs) then s @ substitute_placeholders c s (drop 7 xs)
      else x # substitute_placeholders c s xs)"
  by pat_completeness auto
termination
  by (relation "measure (\<lambda>(c, s, t). length t)") auto

function only_placeholders :: "string \<Rightarrow> bool" where
  "only_placeholders [] = True"
| "only_placeholders (x # xs) =
     (if prefix ''{catalog}'' (x # xs) then only_placeholders (drop 8 xs)
      else if prefix ''{schema}'' (x # xs) then only_placeholders (drop 7 xs)
      else x \<noteq> CHR ''{'' \<and> x \<noteq> CHR ''}'' \<and> only_placeholders xs)"
  by pat_completeness auto
termination
  by (relation "measure length") auto

definition double_quotes :: "string \<Rightarrow> string" where
  "double_quotes s = concat (map (\<lambda>c. if c = sq then [sq, sq] else [c]) s)"

declare substitute_placeholders.simps [simp del] only_placeholders.simps [simp del]

text \<open>
  The twelve fields of the f-string of \<open>generate_alert_sql\<close>, in the order it writes
  them, given the formatted query text.
\<close>

definition argument_values :: "python \<Rightarrow> pyval \<Rightarrow> pyval \<Rightarrow> string \<Rightarrow> string list" where
  "argument_values L a g query_text =
     [quoted (py_str L (item a ''display_name'')),
      quoted (py_replace_char sq [sq, sq] query_text),
      py_str L (item g ''warehouse_id''),
      quoted (py_str L (item a ''comparison_operator'')),
      py_str L (item a ''threshold_value''),
      quoted (py_str L (case supplies a ''empty_result_state'' of Some v \<Rightarrow> v | None \<Rightarrow> PStr ''UNKNOWN'')),
      py_str L (item g ''user_email''),
      py_lower (py_str L (item g ''notify_on_ok'')),
      py_str L (item g ''retrigger_seconds''),
      quoted (py_str L (case supplies a ''cron_schedule'' of Some v \<Rightarrow> v | None \<Rightarrow>
                        (case supplies g ''cron_schedule'' of Some v \<Rightarrow> v | None \<Rightarrow> PStr default_cron))),
      quoted (py_str L (item g ''timezone_id'')),
      quoted (py_str L (item g ''pause_status''))]"



text \<open>
  The two-line header comment of a batch document, the text that stands between two of its
  cells (an empty line, the marker, an empty line), and the items of a mapping in their
  insertion order.
\<close>

definition header_comment :: string where
  "header_comment =
     ''-- Databricks Security Detection Alerts'' @ nl @ ''-- Generated from rules.yml''"

definition cell_separator :: string where
  "cell_separator = nl @ nl @ ''-- COMMAND ----------'' @ nl @ nl"

definition items_of :: "pyval \<Rightarrow> (pyval \<times> pyval) list" where
  "items_of v = (case v of PDict d \<Rightarrow> d | _ \<Rightarrow> [])"

text \<open>
  The document of a run: what loading \<open>rules.yml\<close> and rendering its alerts yield,
  before anything is written.
\<close>

definition generated :: "python \<Rightarrow> world \<Rightarrow> py_error + string" where
  "generated L w = and_then (load_rules L w) (generate_all_alerts_sql L)"

subsection \<open>The scenario of the specification\<close>

text \<open>
  The configuration of the specification's scenario: its global settings, its alert and
  the statement that the alert must produce.
\<close>

definition example_global :: pyval where
  "example_global = PDict
     [(PStr ''catalog'', PStr ''sec''),
      (PStr ''schema'', PStr ''detect''),
      (PStr ''warehouse_id'', PInt 123),
      (PStr ''user_email'', PStr ''a@b.com''),
      (PStr ''notify_on_ok'', PBool True),
      (PStr ''retrigger_seconds'', PInt 600),
      (PStr ''timezone_id'', PStr ''UTC''),
      (PStr ''pause_status'', PStr ''UNPAUSED'')]"

definition example_alert :: pyval where
  "example_alert = PDict
     [(PStr ''description'', PStr ''d''),
      (PStr ''display_name'', PStr ''n''),
      (PStr ''query_template'', PStr ''SELECT * FROM {catalog}.{schema}.t''),
      (PStr ''comparison_operator'', PStr ''>''),
      (PStr ''threshold_value'', PInt 5)]"

definition example_sql :: string where
  "example_sql = create_alert_statement ''d''
     (zip arg_order
        [quoted ''n'', quoted ''SELECT * FROM sec.detect.t'', ''123'', quoted ''>'', ''5'',
         quoted ''UNKNOWN'', ''a@b.com'', ''true'', ''600'', quoted ''0 0 10 1/7 * ?'',
         quoted ''UTC'', quoted ''UNPAUSED''])"

text \<open>
  Variations of the scenario: a template with doubled braces, a template with quoted
  text, a catalog and a display name with an apostrophe, an alert that lacks
  \<open>threshold_value\<close>; configurations with two alerts, with a failing second alert and with
  no alert. The library of the scenario parses the text \<open>rules\<close> to the configuration
  with two alerts, the text \<open>broken\<close> to the one with the failing alert, and rejects every
  other text. \<open>world_with content\<close> is a world that holds \<open>rules.yml\<close> with that content,
  or no file at all.
\<close>

definition braces_alert :: pyval where
  "braces_alert = PDict
     [(PStr ''description'', PStr ''d''),
      (PStr ''display_name'', PStr ''n''),
      (PStr ''query_template'', PStr ''{{}}''),
      (PStr ''comparison_operator'', PStr ''>''),
      (PStr ''threshold_value'', PInt 5)]"

definition quote_alert :: pyval where
  "quote_alert = PDict
     [(PStr ''description'', PStr ''d''),
      (PStr ''display_name'', PStr ''n''),
      (PStr ''query_template'', PStr (''SELECT '' @ [sq] @ ''x'' @ [sq] @ '' FROM {catalog}.{schema}.t'')),
      (PStr ''comparison_operator'', PStr ''>''),
      (PStr ''threshold_value'', PInt 5)]"


definition apostrophe_alert :: pyval where
  "apostrophe_alert = PDict
     [(PStr ''description'', PStr ''d''),
      (PStr ''display_name'', PStr (''it'' @ [sq] @ ''s'')),
      (PStr ''query_template'', PStr ''SELECT 1''),
      (PStr ''comparison_operator'', PStr ''>''),
      (PStr ''threshold_value'', PInt 5)]"

definition broken_alert :: pyval where
  "broken_alert = PDict
     [(PStr ''description'', PStr ''d''),
      (PStr ''display_name'', PStr ''n''),
      (PStr ''query_template'', PStr ''SELECT 1''),
      (PStr ''comparison_operator'', PStr ''>'')]"

definition two_rules :: pyval where
  "two_rules = PDict
     [(PStr ''global'', example_global),
      (PStr ''alerts'', PDict [(PStr ''first'', example_alert), (PStr ''second'', apostrophe_alert)])]"

definition broken_rules :: pyval where
  "broken_rules = PDict
     [(PStr ''global'', example_global),
      (PStr ''alerts'', PDict [(PStr ''first'', example_alert), (PStr ''second'', broken_alert)])]"

definition no_alerts :: pyval where
  "no_alerts = PDict [(PStr ''global'', example_global), (PStr ''alerts'', PDict [])]"

definition example_python :: python where
  "example_python =
     \<lparr>safe_load = (\<lambda>content.
        if content = ''rules'' then Inr two_rules
        else if content = ''broken'' then Inr broken_rules
        else Inl (YAMLError ''bad'')),
      format_field = (\<lambda>c s name conv spec. Inl (KeyError name)),
      dict_str = (\<lambda>d. ''{}'')\<rparr>"

definition world_with :: "string option \<Rightarrow> world" where
  "world_with content =
     \<lparr>files = (\<lambda>path. if path = rules_file then content else None),
      open_w_error = (\<lambda>path. None),
      console = []\<rparr>"

definition braces_sql :: string where
  "braces_sql = create_alert_statement ''d''
     (zip arg_order
        [quoted ''n'', quoted ''{}'', ''123'', quoted ''>'', ''5'',
         quoted ''UNKNOWN'', ''a@b.com'', ''true'', ''600'', quoted ''0 0 10 1/7 * ?'',
         quoted ''UTC'', quoted ''UNPAUSED''])"

definition quote_sql :: string where
  "quote_sql = create_alert_statement ''d''
     (zip arg_order
        [quoted ''n'', quoted (''SELECT '' @ [sq, sq] @ ''x'' @ [sq, sq] @ '' FROM sec.detect.t''),
         ''123'', quoted ''>'', ''5'',
         quoted ''UNKNOWN'', ''a@b.com'', ''true'', ''600'', quoted ''0 0 10 1/7 * ?'',
         quoted ''UTC'', quoted ''UNPAUSED''])"


definition apostrophe_sql :: string where
  "apostrophe_sql = create_alert_statement ''d''
     (zip arg_order
        [quoted (''it'' @ [sq] @ ''s''), quoted ''SELECT 1'',
         ''123'', quoted ''>'', ''5'',
         quoted ''UNKNOWN'', ''a@b.com'', ''true'', ''600'', quoted ''0 0 10 1/7 * ?'',
         quoted ''UTC'', quoted ''UNPAUSED''])"

section \<open>Properties\<close>

subsection \<open>Lookups and the shape of a statement\<close>

lemma py_getitem_Inr: "py_getitem v k = Inr x \<longleftrightarrow> supplies v k = Some x"
  by (cases v) (auto simp: supplies_def split: option.splits)

lemma py_getitem_item: "py_getitem v k = Inr x \<Longrightarrow> item v k = x"
  by (simp add: py_getitem_Inr item_def)

lemma py_get_Inr:
  "py_get v k d = Inr x \<Longrightarrow> x = (case supplies v k of Some y \<Rightarrow> y | None \<Rightarrow> d)"
  by (cases v) (auto simp: supplies_def split: option.splits)

lemma py_format_attr_Inr: "py_format_attr v = Inr t \<longleftrightarrow> v = PStr t"
  by (cases v) auto

lemma and_then_Inr: "and_then r f = Inr y \<longleftrightarrow> (\<exists>x. r = Inr x \<and> f x = Inr y)"
  by (cases r) (auto simp: and_then_def)

lemma generate_alert_sql_Inr:
  assumes "generate_alert_sql L a g = Inr sql"
  shows "\<exists>template query_text.
           supplies a ''query_template'' = Some (PStr template) \<and>
           py_format L (item g ''catalog'') (item g ''schema'') template = Inr query_text \<and>
           sql = create_alert_statement (py_str L (item a ''description''))
                   (zip arg_order (argument_values L a g query_text))"
  using assms
  unfolding generate_alert_sql_def and_then_Inr
  apply (elim exE conjE)
  apply (simp add: py_format_attr_Inr)
  apply (frule py_getitem_item)
  apply (auto simp: py_getitem_Inr item_def create_alert_statement_def arg_order_def
      argument_values_def named_arg_def quoted_def dest!: py_get_Inr)
  done

subsection \<open>Formatting a template that has only the two placeholders\<close>

lemma py_replace_char_double: "py_replace_char sq [sq, sq] s = double_quotes s"
  by (induction s) (auto simp: double_quotes_def)

lemma parse_catalog: "parse_field (''catalog}'' @ r) = Inr (''catalog'', None, [], r)"
  by (simp add: parse_field_def)

lemma parse_schema: "parse_field (''schema}'' @ r) = Inr (''schema'', None, [], r)"
  by (simp add: parse_field_def)

lemma py_format_catalog:
  "py_format L c s (''{catalog}'' @ r) =
     (case py_format L c s r of Inl e \<Rightarrow> Inl e | Inr out \<Rightarrow> Inr (py_str L c @ out))"
  using parse_catalog[of r]
  by (simp add: py_format.simps render_field_def)

lemma py_format_schema:
  "py_format L c s (''{schema}'' @ r) =
     (case py_format L c s r of Inl e \<Rightarrow> Inl e | Inr out \<Rightarrow> Inr (py_str L s @ out))"
  using parse_schema[of r]
  by (simp add: py_format.simps render_field_def)

lemma py_format_only_placeholders:
  "only_placeholders t \<Longrightarrow>
   py_format L c s t = Inr (substitute_placeholders (py_str L c) (py_str L s) t)"
proof (induction t rule: only_placeholders.induct)
  case 1
  show ?case by (simp add: py_format.simps substitute_placeholders.simps)
next
  case (2 x xs)
  show ?case
  proof (cases "prefix ''{catalog}'' (x # xs)")
    case True
    then obtain r where "x # xs = ''{catalog}'' @ r"
      by (auto simp: prefix_def)
    then have eq: "x # xs = ''{catalog}'' @ drop 8 xs"
      by auto
    from True "2.prems" have "only_placeholders (drop 8 xs)"
      by (simp add: only_placeholders.simps)
    with "2.IH"(1)[OF True] have "py_format L c s (drop 8 xs) =
        Inr (substitute_placeholders (py_str L c) (py_str L s) (drop 8 xs))" .
    then have "py_format L c s (''{catalog}'' @ drop 8 xs) =
        Inr (py_str L c @ substitute_placeholders (py_str L c) (py_str L s) (drop 8 xs))"
      using py_format_catalog[of L c s "drop 8 xs"] by simp
    moreover have "substitute_placeholders (py_str L c) (py_str L s) (x # xs) =
        py_str L c @ substitute_placeholders (py_str L c) (py_str L s) (drop 8 xs)"
      using True by (simp add: substitute_placeholders.simps)
    ultimately show ?thesis using eq by simp
  next
    case nc: False
    show ?thesis
    proof (cases "prefix ''{schema}'' (x # xs)")
      case True
      then obtain r where "x # xs = ''{schema}'' @ r"
        by (auto simp: prefix_def)
      then have eq: "x # xs = ''{schema}'' @ drop 7 xs"
        by auto
      from nc True "2.prems" have "only_placeholders (drop 7 xs)"
        by (simp add: only_placeholders.simps)
      with "2.IH"(2)[OF nc True] have "py_format L c s (drop 7 xs) =
          Inr (substitute_placeholders (py_str L c) (py_str L s) (drop 7 xs))" .
      then have "py_format L c s (''{schema}'' @ drop 7 xs) =
          Inr (py_str L s @ substitute_placeholders (py_str L c) (py_str L s) (drop 7 xs))"
        using py_format_schema[of L c s "drop 7 xs"] by simp
      moreover have "substitute_placeholders (py_str L c) (py_str L s) (x # xs) =
          py_str L s @ substitute_placeholders (py_str L c) (py_str L s) (drop 7 xs)"
        using nc True by (simp add: substitute_placeholders.simps)
      ultimately show ?thesis using eq by simp
    next
      case False
      with nc "2.prems" have x: "x \<noteq> CHR ''{''" "x \<noteq> CHR ''}''" and r: "only_placeholders xs"
        by (simp_all add: only_placeholders.simps)
      from "2.IH"(3)[OF nc False] r x have "py_format L c s xs =
          Inr (substitute_placeholders (py_str L c) (py_str L s) xs)" by simp
      moreover have "substitute_placeholders (py_str L c) (py_str L s) (x # xs) =
          x # substitute_placeholders (py_str L c) (py_str L s) xs"
        using nc False by (auto simp: substitute_placeholders.simps)
      ultimately show ?thesis using x by (simp add: py_format.simps)
    qed
  qed
qed

lemma prefix_before: "prefix p (a @ c # b) \<Longrightarrow> c \<notin> set p \<Longrightarrow> prefix p a"
  by (auto simp: prefix_append prefix_Cons)

lemma substitute_at_quote:
  "only_placeholders (t1 @ sq # t2) \<Longrightarrow>
   substitute_placeholders c s (t1 @ sq # t2) =
     substitute_placeholders c s t1 @ sq # substitute_placeholders c s t2"
proof (induction c s t1 rule: substitute_placeholders.induct)
  case (1 c s)
  then show ?case
    by (simp add: substitute_placeholders.simps sq_def)
next
  case (2 c s x xs)
  let ?t = "x # xs @ sq # t2"
  show ?case
  proof (cases "prefix ''{catalog}'' ?t")
    case True
    then have p: "prefix ''{catalog}'' (x # xs)"
      using prefix_before[of "''{catalog}''" "x # xs" sq t2] by (auto simp: sq_def)
    then obtain r where "x # xs = ''{catalog}'' @ r"
      by (auto simp: prefix_def)
    then have d: "drop 8 (xs @ sq # t2) = drop 8 xs @ sq # t2"
      by auto
    from True "2.prems" have "only_placeholders (drop 8 xs @ sq # t2)"
      by (simp add: only_placeholders.simps d del: drop_append)
    from "2.IH"(1)[OF p this] show ?thesis
      using True p by (simp add: substitute_placeholders.simps d del: drop_append)
  next
    case nc: False
    then have nc': "\<not> prefix ''{catalog}'' (x # xs)"
      using prefix_prefix[of "''{catalog}''" "x # xs" "sq # t2"] by auto
    show ?thesis
    proof (cases "prefix ''{schema}'' ?t")
      case True
      then have p: "prefix ''{schema}'' (x # xs)"
        using prefix_before[of "''{schema}''" "x # xs" sq t2] by (auto simp: sq_def)
      then obtain r where "x # xs = ''{schema}'' @ r"
        by (auto simp: prefix_def)
      then have d: "drop 7 (xs @ sq # t2) = drop 7 xs @ sq # t2"
        by auto
      from nc True "2.prems" have "only_placeholders (drop 7 xs @ sq # t2)"
        by (simp add: only_placeholders.simps d del: drop_append)
      from "2.IH"(2)[OF nc' p this] show ?thesis
        using nc nc' True p by (simp add: substitute_placeholders.simps d del: drop_append)
    next
      case False
      then have ns': "\<not> prefix ''{schema}'' (x # xs)"
        using prefix_prefix[of "''{schema}''" "x # xs" "sq # t2"] by auto
      from nc False "2.prems" have "only_placeholders (xs @ sq # t2)"
        by (simp add: only_placeholders.simps)
      from "2.IH"(3)[OF nc' ns' this] show ?thesis
        using nc nc' False ns' by (auto simp: substitute_placeholders.simps)
    qed
  qed
qed

lemma double_quotes_at_quote:
  "double_quotes (u @ sq # v) = double_quotes u @ [sq, sq] @ double_quotes v"
  by (simp add: double_quotes_def)

subsection \<open>Evaluating the scenario\<close>

lemmas eval_simps =
  and_then_def py_format.simps parse_field_def render_field_def str_int_def str_nat.simps
  digit_char_def py_lower_def lower_char_def create_alert_statement_def arg_order_def
  named_arg_def quoted_def default_cron_def nl_def sq_def

lemma example_alert_sql:
  "generate_alert_sql example_python example_alert example_global = Inr example_sql"
  by (simp add: generate_alert_sql_def example_alert_def example_global_def example_sql_def
      example_python_def eval_simps)

text \<open>
  The statement of the scenario, line by line.
\<close>

lemma example_sql_text:
  "example_sql =
     ''-- d'' @ nl @
     ''SELECT create_alert('' @ nl @
     ''  display_name => '' @ quoted ''n'' @ '','' @ nl @
     ''  query_text => '' @ quoted ''SELECT * FROM sec.detect.t'' @ '','' @ nl @
     ''  warehouse_id => 123,'' @ nl @
     ''  comparison_operator => '' @ quoted ''>'' @ '','' @ nl @
     ''  threshold_value => 5,'' @ nl @
     ''  empty_result_state => '' @ quoted ''UNKNOWN'' @ '','' @ nl @
     ''  user_email => a@b.com,'' @ nl @
     ''  notify_on_ok => true,'' @ nl @
     ''  retrigger_seconds => 600,'' @ nl @
     ''  cron_schedule => '' @ quoted ''0 0 10 1/7 * ?'' @ '','' @ nl @
     ''  timezone_id => '' @ quoted ''UTC'' @ '','' @ nl @
     ''  pause_status => '' @ quoted ''UNPAUSED'' @ nl @
     '') as alert;''"
  by (simp add: example_sql_def create_alert_statement_def arg_order_def named_arg_def)

subsection \<open>Where an argument stands in a statement\<close>




lemma length_argument_values: "length (argument_values L a g q) = 12"
  by (simp add: argument_values_def)

subsection \<open>The claims about one statement\<close>

text \<open>
  \<^bold>\<open>C1.\<close> Whatever the alert rule and the global configuration, a statement that
  \<open>generate_alert_sql\<close> renders is the description comment followed by a call of
  \<open>create_alert\<close> with twelve named arguments in this order: display_name, query_text,
  warehouse_id, comparison_operator, threshold_value, empty_result_state, user_email,
  notify_on_ok, retrigger_seconds, cron_schedule, timezone_id, pause_status.
\<close>

theorem create_alert_argument_order:
  assumes "generate_alert_sql L alert_config global_config = Inr sql"
  shows "\<exists>description vals. length vals = 12 \<and>
           sql = create_alert_statement description
                   (zip [''display_name'', ''query_text'', ''warehouse_id'',
                         ''comparison_operator'', ''threshold_value'', ''empty_result_state'',
                         ''user_email'', ''notify_on_ok'', ''retrigger_seconds'',
                         ''cron_schedule'', ''timezone_id'', ''pause_status''] vals)"
proof -
  from generate_alert_sql_Inr[OF assms] obtain q where
    "sql = create_alert_statement (py_str L (item alert_config ''description''))
             (zip arg_order (argument_values L alert_config global_config q))"
    by blast
  then show ?thesis
    using length_argument_values[of L alert_config global_config q]
    unfolding arg_order_def by blast
qed

theorem create_alert_argument_order_witness:
  "generate_alert_sql example_python example_alert example_global = Inr example_sql \<and>
   (\<exists>description vals. length vals = 12 \<and>
      example_sql = create_alert_statement description
                   (zip [''display_name'', ''query_text'', ''warehouse_id'',
                         ''comparison_operator'', ''threshold_value'', ''empty_result_state'',
                         ''user_email'', ''notify_on_ok'', ''retrigger_seconds'',
                         ''cron_schedule'', ''timezone_id'', ''pause_status''] vals))"
  using create_alert_argument_order[OF example_alert_sql] example_alert_sql by simp







subsection \<open>Evaluating the variations\<close>

lemma braces_alert_sql:
  "generate_alert_sql example_python braces_alert example_global = Inr braces_sql"
  by (simp add: generate_alert_sql_def braces_alert_def example_global_def braces_sql_def
      example_python_def eval_simps)

lemma quote_alert_sql:
  "generate_alert_sql example_python quote_alert example_global = Inr quote_sql"
  by (simp add: generate_alert_sql_def quote_alert_def example_global_def quote_sql_def
      example_python_def eval_simps)


lemma apostrophe_alert_sql:
  "generate_alert_sql example_python apostrophe_alert example_global = Inr apostrophe_sql"
  by (simp add: generate_alert_sql_def apostrophe_alert_def example_global_def
      apostrophe_sql_def example_python_def eval_simps)

lemma sublist_simps:
  "sublist [] ys \<longleftrightarrow> True"
  "sublist (x # xs) [] \<longleftrightarrow> False"
  "sublist (x # xs) (y # ys) \<longleftrightarrow> prefix (x # xs) (y # ys) \<or> sublist (x # xs) ys"
  by (simp_all add: sublist_Cons_right)



subsection \<open>The claims about the query text and about escaping\<close>

text \<open>
  \<^bold>\<open>C2\<close>, as the specification states it, fails on a template with doubled braces:
  \<open>str.format\<close> reads \<open>{{\<close> and \<open>}}\<close> as one literal brace each, so the template
  \<open>{{}}\<close> is emitted as \<open>'{}'\<close>, and the literal that replacing the two placeholders
  yields, \<open>'{{}}'\<close>, is nowhere in the statement. (No field is expanded here, so the
  statement does not depend on the library of the scenario.)
\<close>

theorem query_text_braces_counterexample:
  "generate_alert_sql example_python braces_alert example_global = Inr braces_sql \<and>
   supplies braces_alert ''query_template'' = Some (PStr ''{{}}'') \<and>
   \<not> sublist (''query_text => '' @
       quoted (double_quotes (substitute_placeholders ''sec'' ''detect'' ''{{}}''))) braces_sql"
proof -
  have "substitute_placeholders ''sec'' ''detect'' ''{{}}'' = ''{{}}''"
    by (simp add: substitute_placeholders.simps)
  then have "\<not> sublist (''query_text => '' @
       quoted (double_quotes (substitute_placeholders ''sec'' ''detect'' ''{{}}''))) braces_sql"
    by (simp add: braces_sql_def double_quotes_def eval_simps sublist_simps)
  moreover have "supplies braces_alert ''query_template'' = Some (PStr ''{{}}'')"
    by (simp add: supplies_def braces_alert_def)
  ultimately show ?thesis
    using braces_alert_sql by simp
qed

text \<open>
  \<^bold>\<open>C2\<close>, amended. For every alert rule whose template has no brace outside the
  placeholders \<open>{catalog}\<close> and \<open>{schema}\<close>, the second argument, \<open>query_text\<close>, is the
  template with the placeholders replaced by the global catalog and schema, then every
  single quote doubled, in single quotes. In particular a single quote of the template
  stands as two single quotes at its place: between the escaped texts of what precedes
  and what follows it.
\<close>

theorem query_text_substituted_and_escaped:
  assumes "generate_alert_sql L rule global = Inr sql"
    and "supplies rule ''query_template'' = Some (PStr template)"
    and "only_placeholders template"
  shows "(\<exists>description vals. length vals = 12 \<and>
            sql = create_alert_statement description (zip arg_order vals) \<and>
            arg_order ! 1 = ''query_text'' \<and>
            vals ! 1 = quoted (double_quotes (substitute_placeholders
                         (py_str L (item global ''catalog''))
                         (py_str L (item global ''schema'')) template))) \<and>
         (\<forall>before after. template = before @ sq # after \<longrightarrow>
            substitute_placeholders (py_str L (item global ''catalog''))
              (py_str L (item global ''schema'')) template =
            substitute_placeholders (py_str L (item global ''catalog''))
              (py_str L (item global ''schema'')) before @ sq #
            substitute_placeholders (py_str L (item global ''catalog''))
              (py_str L (item global ''schema'')) after \<and>
            double_quotes (substitute_placeholders (py_str L (item global ''catalog''))
              (py_str L (item global ''schema'')) template) =
            double_quotes (substitute_placeholders (py_str L (item global ''catalog''))
              (py_str L (item global ''schema'')) before) @ [sq, sq] @
            double_quotes (substitute_placeholders (py_str L (item global ''catalog''))
              (py_str L (item global ''schema'')) after))"
proof -
  let ?c = "py_str L (item global ''catalog'')" and ?s = "py_str L (item global ''schema'')"
  from generate_alert_sql_Inr[OF assms(1)] assms(2) obtain q where
    q: "py_format L (item global ''catalog'') (item global ''schema'') template = Inr q"
    and sql: "sql = create_alert_statement (py_str L (item rule ''description''))
             (zip arg_order (argument_values L rule global q))"
    by auto
  from q py_format_only_placeholders[OF assms(3), of L "item global ''catalog''" "item global ''schema''"]
  have "q = substitute_placeholders ?c ?s template"
    by simp
  then have "argument_values L rule global q ! 1 =
      quoted (double_quotes (substitute_placeholders ?c ?s template))"
    by (simp add: argument_values_def py_replace_char_double)
  moreover have "arg_order ! 1 = ''query_text''"
    by (simp add: arg_order_def)
  ultimately have first: "\<exists>description vals. length vals = 12 \<and>
            sql = create_alert_statement description (zip arg_order vals) \<and>
            arg_order ! 1 = ''query_text'' \<and>
            vals ! 1 = quoted (double_quotes (substitute_placeholders ?c ?s template))"
    using sql length_argument_values[of L rule global q] by blast
  have second: "substitute_placeholders ?c ?s template =
        substitute_placeholders ?c ?s before @ sq # substitute_placeholders ?c ?s after \<and>
      double_quotes (substitute_placeholders ?c ?s template) =
        double_quotes (substitute_placeholders ?c ?s before) @ [sq, sq] @
        double_quotes (substitute_placeholders ?c ?s after)"
    if "template = before @ sq # after" for before after
    using substitute_at_quote[of before after ?c ?s] assms(3) that
    by (simp add: double_quotes_at_quote)
  from first second show ?thesis by blast
qed

theorem query_text_substituted_and_escaped_witness:
  "generate_alert_sql example_python quote_alert example_global = Inr quote_sql \<and>
   supplies quote_alert ''query_template'' =
     Some (PStr (''SELECT '' @ [sq] @ ''x'' @ [sq] @ '' FROM {catalog}.{schema}.t'')) \<and>
   only_placeholders (''SELECT '' @ [sq] @ ''x'' @ [sq] @ '' FROM {catalog}.{schema}.t'') \<and>
   (\<exists>description vals. length vals = 12 \<and>
      quote_sql = create_alert_statement description (zip arg_order vals) \<and>
      vals ! 1 = quoted (''SELECT '' @ [sq, sq] @ ''x'' @ [sq, sq] @ '' FROM sec.detect.t'')) \<and>
   double_quotes (substitute_placeholders ''sec'' ''detect''
       (''SELECT '' @ [sq] @ ''x'' @ [sq] @ '' FROM {catalog}.{schema}.t'')) =
     double_quotes (substitute_placeholders ''sec'' ''detect'' ''SELECT '') @ [sq, sq] @
     double_quotes (substitute_placeholders ''sec'' ''detect''
       (''x'' @ [sq] @ '' FROM {catalog}.{schema}.t''))"
proof -
  let ?t = "''SELECT '' @ [sq] @ ''x'' @ [sq] @ '' FROM {catalog}.{schema}.t''"
  have t: "supplies quote_alert ''query_template'' = Some (PStr ?t)"
    by (simp add: supplies_def quote_alert_def)
  have o: "only_placeholders ?t"
    by (simp add: only_placeholders.simps sq_def)
  have c: "py_str example_python (item example_global ''catalog'') = ''sec''"
    and s: "py_str example_python (item example_global ''schema'') = ''detect''"
    by (simp_all add: item_def supplies_def example_global_def)
  have v: "double_quotes (substitute_placeholders ''sec'' ''detect'' ?t) =
      ''SELECT '' @ [sq, sq] @ ''x'' @ [sq, sq] @ '' FROM sec.detect.t''"
    by (simp add: substitute_placeholders.simps double_quotes_def sq_def)
  have split: "?t = ''SELECT '' @ sq # (''x'' @ [sq] @ '' FROM {catalog}.{schema}.t'')"
    by simp
  note claim = query_text_substituted_and_escaped[OF quote_alert_sql t o, unfolded c s]
  from claim have "\<exists>description vals. length vals = 12 \<and>
      quote_sql = create_alert_statement description (zip arg_order vals) \<and>
      vals ! 1 = quoted (''SELECT '' @ [sq, sq] @ ''x'' @ [sq, sq] @ '' FROM sec.detect.t'')"
    unfolding v by blast
  moreover from claim split have
    "double_quotes (substitute_placeholders ''sec'' ''detect'' ?t) =
     double_quotes (substitute_placeholders ''sec'' ''detect'' ''SELECT '') @ [sq, sq] @
     double_quotes (substitute_placeholders ''sec'' ''detect''
       (''x'' @ [sq] @ '' FROM {catalog}.{schema}.t''))"
    by blast
  ultimately show ?thesis
    using quote_alert_sql t o by blast
qed




subsection \<open>The batch document\<close>

lemma py_items_Inr: "py_items v = Inr d \<longleftrightarrow> v = PDict d"
  by (cases v) auto

lemma render_alerts_Inr:
  "render_alerts L g items parts = Inr out \<Longrightarrow>
   \<exists>statements.
     list_all2 (\<lambda>entry sql. generate_alert_sql L (snd entry) g = Inr sql) items statements \<and>
     out = parts @ concat (map (\<lambda>sql. [sql, [], separator, []]) statements)"
proof (induction items arbitrary: parts out)
  case Nil
  then show ?case by simp
next
  case (Cons entry items)
  obtain name config where entry: "entry = (name, config)"
    by (cases entry)
  from Cons.prems entry obtain sql where
    sql: "generate_alert_sql L config g = Inr sql"
    and rest: "render_alerts L g items (parts @ [sql, [], separator, []]) = Inr out"
    by (auto split: sum.splits)
  from Cons.IH[OF rest] obtain statements where
    "list_all2 (\<lambda>entry sql. generate_alert_sql L (snd entry) g = Inr sql) items statements"
    and "out = (parts @ [sql, [], separator, []]) @
           concat (map (\<lambda>sql. [sql, [], separator, []]) statements)"
    by blast
  then have "list_all2 (\<lambda>entry sql. generate_alert_sql L (snd entry) g = Inr sql)
        (entry # items) (sql # statements) \<and>
      out = parts @ concat (map (\<lambda>sql. [sql, [], separator, []]) (sql # statements))"
    using sql entry by simp
  then show ?case by blast
qed

lemma render_alerts_all:
  "list_all2 (\<lambda>entry sql. generate_alert_sql L (snd entry) g = Inr sql) items statements \<Longrightarrow>
   render_alerts L g items parts =
     Inr (parts @ concat (map (\<lambda>sql. [sql, [], separator, []]) statements))"
proof (induction items statements arbitrary: parts rule: list_all2_induct)
  case Nil
  show ?case by simp
next
  case (Cons entry sql items statements)
  obtain name config where "entry = (name, config)"
    by (cases entry)
  with Cons show ?case by simp
qed

lemma py_join_Cons: "py_join sep (x # xs) = x @ concat (map (\<lambda>y. sep @ y) xs)"
  by (induction xs arbitrary: x) simp_all

lemma py_join_append:
  "xs \<noteq> [] \<Longrightarrow> py_join sep (xs @ ys) = py_join sep xs @ concat (map (\<lambda>y. sep @ y) ys)"
  by (cases xs) (simp_all add: py_join_Cons)

lemma py_join_cells:
  "py_join cell_separator (h # statements) @ nl @ nl @ separator @ nl =
   h @ nl @ nl @ separator @ nl @
   concat (map (\<lambda>sql. nl @ sql @ nl @ nl @ separator @ nl) statements)"
  by (induction statements arbitrary: h) (simp_all add: cell_separator_def separator_def)

lemma py_join_parts:
  "py_join nl (header_parts @ concat (map (\<lambda>sql. [sql, [], separator, []]) statements)) =
   py_join cell_separator (header_comment # statements) @ nl @ nl @ separator @ nl"
proof -
  have "concat (map (\<lambda>y. nl @ y) (concat (map (\<lambda>sql. [sql, [], separator, []]) statements))) =
      concat (map (\<lambda>sql. nl @ sql @ nl @ nl @ separator @ nl) statements)"
    by (induction statements) simp_all
  moreover have "py_join nl header_parts = header_comment @ nl @ nl @ separator @ nl"
    by (simp add: header_parts_def header_comment_def)
  moreover have "header_parts \<noteq> []"
    by (simp add: header_parts_def)
  ultimately show ?thesis
    by (simp add: py_join_append py_join_cells)
qed

lemma generate_all_alerts_sql_Inr:
  assumes "generate_all_alerts_sql L rules = Inr document"
  shows "\<exists>statements.
     list_all2 (\<lambda>entry sql. generate_alert_sql L (snd entry) (item rules ''global'') = Inr sql)
       (items_of (item rules ''alerts'')) statements \<and>
     document = py_join cell_separator (header_comment # statements) @ nl @ nl @ separator @ nl"
proof -
  from assms obtain g alerts items parts where
    g: "py_getitem rules ''global'' = Inr g"
    and a: "py_getitem rules ''alerts'' = Inr alerts"
    and i: "py_items alerts = Inr items"
    and r: "render_alerts L g items header_parts = Inr parts"
    and d: "document = py_join nl parts"
    unfolding generate_all_alerts_sql_def and_then_Inr by auto
  from g a i have "item rules ''global'' = g" "items_of (item rules ''alerts'') = items"
    by (auto simp: py_getitem_Inr item_def py_items_Inr items_of_def)
  with render_alerts_Inr[OF r] d show ?thesis
    by (auto simp: py_join_parts)
qed


text \<open>
  \<^bold>\<open>C5.\<close> \<open>generate_all_alerts_sql\<close> returns a document exactly for a valid
  configuration, one that has a \<open>global\<close> entry and an \<open>alerts\<close> mapping whose every entry
  renders. The document then holds exactly one statement per entry of the mapping, each
  rendered from its entry, in the order of the mapping; the two-line header comment comes
  first, the marker \<open>-- COMMAND ----------\<close> between empty lines joins the header and the
  statements, and a last marker ends the document.
\<close>

theorem one_statement_per_alert_in_order:
  "generate_all_alerts_sql L rules = Inr document \<longleftrightarrow>
   (\<exists>global items statements.
      supplies rules ''global'' = Some global \<and>
      supplies rules ''alerts'' = Some (PDict items) \<and>
      length statements = length items \<and>
      list_all2 (\<lambda>entry sql. generate_alert_sql L (snd entry) global = Inr sql) items statements \<and>
      document =
        py_join (nl @ nl @ ''-- COMMAND ----------'' @ nl @ nl)
          ((''-- Databricks Security Detection Alerts'' @ nl @ ''-- Generated from rules.yml'')
            # statements)
        @ nl @ nl @ ''-- COMMAND ----------'' @ nl)"
proof
  assume a: "generate_all_alerts_sql L rules = Inr document"
  then obtain g alerts items where
    g: "py_getitem rules ''global'' = Inr g"
    and al: "py_getitem rules ''alerts'' = Inr alerts"
    and i: "py_items alerts = Inr items"
    unfolding generate_all_alerts_sql_def and_then_Inr by auto
  then have s: "supplies rules ''global'' = Some g" "supplies rules ''alerts'' = Some (PDict items)"
    by (simp_all add: py_getitem_Inr py_items_Inr)
  then have "item rules ''global'' = g" "items_of (item rules ''alerts'') = items"
    by (simp_all add: item_def items_of_def)
  with generate_all_alerts_sql_Inr[OF a] obtain statements where
    l: "list_all2 (\<lambda>entry sql. generate_alert_sql L (snd entry) g = Inr sql) items statements"
    and d: "document =
      py_join cell_separator (header_comment # statements) @ nl @ nl @ separator @ nl"
    by auto
  from l have "length statements = length items"
    by (simp add: list_all2_lengthD)
  with s l d show "\<exists>global items statements.
      supplies rules ''global'' = Some global \<and>
      supplies rules ''alerts'' = Some (PDict items) \<and>
      length statements = length items \<and>
      list_all2 (\<lambda>entry sql. generate_alert_sql L (snd entry) global = Inr sql) items statements \<and>
      document =
        py_join (nl @ nl @ ''-- COMMAND ----------'' @ nl @ nl)
          ((''-- Databricks Security Detection Alerts'' @ nl @ ''-- Generated from rules.yml'')
            # statements)
        @ nl @ nl @ ''-- COMMAND ----------'' @ nl"
    unfolding cell_separator_def header_comment_def separator_def by blast
next
  assume "\<exists>global items statements.
      supplies rules ''global'' = Some global \<and>
      supplies rules ''alerts'' = Some (PDict items) \<and>
      length statements = length items \<and>
      list_all2 (\<lambda>entry sql. generate_alert_sql L (snd entry) global = Inr sql) items statements \<and>
      document =
        py_join (nl @ nl @ ''-- COMMAND ----------'' @ nl @ nl)
          ((''-- Databricks Security Detection Alerts'' @ nl @ ''-- Generated from rules.yml'')
            # statements)
        @ nl @ nl @ ''-- COMMAND ----------'' @ nl"
  then obtain g items statements where
    g: "py_getitem rules ''global'' = Inr g"
    and al: "py_getitem rules ''alerts'' = Inr (PDict items)"
    and l: "list_all2 (\<lambda>entry sql. generate_alert_sql L (snd entry) g = Inr sql) items statements"
    and d: "document =
      py_join cell_separator (header_comment # statements) @ nl @ nl @ separator @ nl"
    unfolding cell_separator_def header_comment_def separator_def py_getitem_Inr by blast
  from render_alerts_all[OF l, of header_parts] g al d
  show "generate_all_alerts_sql L rules = Inr document"
    by (simp add: generate_all_alerts_sql_def and_then_def py_join_parts)
qed

theorem one_statement_per_alert_in_order_witness:
  "supplies two_rules ''global'' = Some example_global \<and>
   supplies two_rules ''alerts'' =
     Some (PDict [(PStr ''first'', example_alert), (PStr ''second'', apostrophe_alert)]) \<and>
   generate_alert_sql example_python example_alert example_global = Inr example_sql \<and>
   generate_alert_sql example_python apostrophe_alert example_global = Inr apostrophe_sql \<and>
   generate_all_alerts_sql example_python two_rules =
     Inr (''-- Databricks Security Detection Alerts'' @ nl @ ''-- Generated from rules.yml'' @
          nl @ nl @ ''-- COMMAND ----------'' @ nl @ nl @
          example_sql @
          nl @ nl @ ''-- COMMAND ----------'' @ nl @ nl @
          apostrophe_sql @
          nl @ nl @ ''-- COMMAND ----------'' @ nl)"
proof -
  let ?items = "[(PStr ''first'', example_alert), (PStr ''second'', apostrophe_alert)]"
  let ?document = "py_join (nl @ nl @ ''-- COMMAND ----------'' @ nl @ nl)
          ((''-- Databricks Security Detection Alerts'' @ nl @ ''-- Generated from rules.yml'')
            # [example_sql, apostrophe_sql])
        @ nl @ nl @ ''-- COMMAND ----------'' @ nl"
  have g: "supplies two_rules ''global'' = Some example_global"
    and a: "supplies two_rules ''alerts'' = Some (PDict ?items)"
    by (simp_all add: supplies_def two_rules_def)
  have l: "list_all2 (\<lambda>entry sql. generate_alert_sql example_python (snd entry) example_global = Inr sql)
      ?items [example_sql, apostrophe_sql]"
    by (simp add: example_alert_sql apostrophe_alert_sql)
  have n: "length [example_sql, apostrophe_sql] = length ?items"
    by simp
  have "\<exists>global items statements.
      supplies two_rules ''global'' = Some global \<and>
      supplies two_rules ''alerts'' = Some (PDict items) \<and>
      length statements = length items \<and>
      list_all2 (\<lambda>entry sql. generate_alert_sql example_python (snd entry) global = Inr sql)
        items statements \<and>
      ?document =
        py_join (nl @ nl @ ''-- COMMAND ----------'' @ nl @ nl)
          ((''-- Databricks Security Detection Alerts'' @ nl @ ''-- Generated from rules.yml'')
            # statements)
        @ nl @ nl @ ''-- COMMAND ----------'' @ nl"
    using g a n l by blast
  then have "generate_all_alerts_sql example_python two_rules = Inr ?document"
    by (rule iffD2[OF one_statement_per_alert_in_order])
  then have "generate_all_alerts_sql example_python two_rules =
     Inr (''-- Databricks Security Detection Alerts'' @ nl @ ''-- Generated from rules.yml'' @
          nl @ nl @ ''-- COMMAND ----------'' @ nl @ nl @
          example_sql @
          nl @ nl @ ''-- COMMAND ----------'' @ nl @ nl @
          apostrophe_sql @
          nl @ nl @ ''-- COMMAND ----------'' @ nl)"
    by simp
  with g a example_alert_sql apostrophe_alert_sql show ?thesis
    by blast
qed

text \<open>
  \<^bold>\<open>C10.\<close> For a configuration with a \<open>global\<close> entry and an empty \<open>alerts\<close>
  mapping the batch renderer succeeds, and the document is the header block alone: the two
  comment lines, an empty line, one marker and a final newline.
\<close>

theorem empty_alerts_give_header_block:
  assumes "supplies rules ''global'' = Some global"
    and "supplies rules ''alerts'' = Some (PDict [])"
  shows "generate_all_alerts_sql L rules =
     Inr (''-- Databricks Security Detection Alerts'' @ nl @
          ''-- Generated from rules.yml'' @ nl @
          nl @
          ''-- COMMAND ----------'' @ nl)"
proof -
  from assms have "py_getitem rules ''global'' = Inr global"
    and "py_getitem rules ''alerts'' = Inr (PDict [])"
    by (simp_all add: py_getitem_Inr)
  then show ?thesis
    by (simp add: generate_all_alerts_sql_def and_then_def header_parts_def separator_def)
qed

theorem empty_alerts_give_header_block_witness:
  "supplies no_alerts ''global'' = Some example_global \<and>
   supplies no_alerts ''alerts'' = Some (PDict []) \<and>
   generate_all_alerts_sql example_python no_alerts =
     Inr (''-- Databricks Security Detection Alerts'' @ nl @
          ''-- Generated from rules.yml'' @ nl @
          nl @
          ''-- COMMAND ----------'' @ nl)"
proof -
  have g: "supplies no_alerts ''global'' = Some example_global"
    and a: "supplies no_alerts ''alerts'' = Some (PDict [])"
    by (simp_all add: supplies_def no_alerts_def)
  from empty_alerts_give_header_block[OF g a, of example_python] g a
  show ?thesis by simp
qed

subsection \<open>The run and the output file\<close>


lemma print_fields [simp]:
  "files (print m w) = files w"
  "open_w_error (print m w) = open_w_error w"
  "console (print m w) = console w @ [m]"
  by (simp_all add: print_def)

lemma report_fields [simp]:
  "files (report e w) = files w"
  "open_w_error (report e w) = open_w_error w"
  by (cases e; simp)+

lemma print_summary_fields:
  "files (snd (print_summary L items w)) = files w \<and>
   open_w_error (snd (print_summary L items w)) = open_w_error w"
proof (induction items arbitrary: w)
  case Nil
  show ?case by simp
next
  case (Cons entry items)
  obtain name config where "entry = (name, config)"
    by (cases entry)
  then show ?case
    using Cons.IH by (simp split: sum.splits add: Let_def)
qed

lemma main_body_failed:
  "generated L w = Inl e \<Longrightarrow> main_body L w = (Some e, w)"
  by (auto simp: generated_def and_then_def main_body_def split: sum.splits)

lemma main_failed:
  "generated L w = Inl e \<Longrightarrow> main L w = report e w"
  by (simp add: main_def main_body_failed)

lemma main_body_fields:
  "files (snd (main_body L w)) =
     (case generated L w of
        Inl e \<Rightarrow> files w
      | Inr sql \<Rightarrow>
          (case open_w_error w output_file of
             Some e \<Rightarrow> files w
           | None \<Rightarrow> (files w)(output_file := Some sql))) \<and>
   open_w_error (snd (main_body L w)) = open_w_error w"
  using print_summary_fields
  by (auto simp: generated_def and_then_def main_body_def write_file_def Let_def
      split: sum.splits option.splits)

lemma main_fields:
  "files (main L w) =
     (case generated L w of
        Inl e \<Rightarrow> files w
      | Inr sql \<Rightarrow>
          (case open_w_error w output_file of
             Some e \<Rightarrow> files w
           | None \<Rightarrow> (files w)(output_file := Some sql)))"
  "open_w_error (main L w) = open_w_error w"
proof -
  obtain r w' where b: "main_body L w = (r, w')"
    by (cases "main_body L w")
  then have "files (main L w) = files (snd (main_body L w))"
    and "open_w_error (main L w) = open_w_error (snd (main_body L w))"
    by (cases r; simp add: main_def)+
  then show "files (main L w) =
     (case generated L w of
        Inl e \<Rightarrow> files w
      | Inr sql \<Rightarrow>
          (case open_w_error w output_file of
             Some e \<Rightarrow> files w
           | None \<Rightarrow> (files w)(output_file := Some sql)))"
    and "open_w_error (main L w) = open_w_error w"
    using main_body_fields[of L w] by simp_all
qed

lemma failing_alert_fails_batch:
  assumes "entry \<in> set (items_of (item rules ''alerts''))"
    and "generate_alert_sql L (snd entry) (item rules ''global'') = Inl e"
  shows "\<exists>e'. generate_all_alerts_sql L rules = Inl e'"
proof (cases "generate_all_alerts_sql L rules")
  case (Inl e')
  then show ?thesis by blast
next
  case (Inr document)
  from generate_all_alerts_sql_Inr[OF Inr] obtain statements where
    l: "list_all2 (\<lambda>entry sql. generate_alert_sql L (snd entry) (item rules ''global'') = Inr sql)
       (items_of (item rules ''alerts'')) statements"
    by blast
  from assms(1) obtain i where "i < length (items_of (item rules ''alerts''))"
    and "items_of (item rules ''alerts'') ! i = entry"
    by (auto simp: in_set_conv_nth)
  with l have "generate_alert_sql L (snd entry) (item rules ''global'') = Inr (statements ! i)"
    by (auto dest: list_all2_nthD)
  with assms(2) show ?thesis by simp
qed

text \<open>
  \<^bold>\<open>C7.\<close> A run that cannot load the configuration (the file is missing, or the parser
  or the reader raises) or cannot render the batch, in particular because one single
  alert fails to render, leaves every file as it was: no output file is written, whole or
  in part. A run without \<open>rules.yml\<close> prints the missing-file message.
\<close>

theorem no_output_on_failure:
  "(files w rules_file = None \<longrightarrow>
      files (main L w) = files w \<and> console (main L w) = console w @ [Rules_not_found]) \<and>
   (load_rules L w = Inl e \<longrightarrow> files (main L w) = files w) \<and>
   (load_rules L w = Inr rules \<and> generate_all_alerts_sql L rules = Inl e \<longrightarrow>
      files (main L w) = files w) \<and>
   (load_rules L w = Inr rules \<and> entry \<in> set (items_of (item rules ''alerts'')) \<and>
    generate_alert_sql L (snd entry) (item rules ''global'') = Inl e \<longrightarrow>
      files (main L w) = files w)"
proof (intro conjI impI)
  assume "files w rules_file = None"
  then have "generated L w = Inl FileNotFoundError"
    by (simp add: generated_def load_rules_def and_then_def)
  then have "main L w = report FileNotFoundError w"
    by (rule main_failed)
  then show "files (main L w) = files w" "console (main L w) = console w @ [Rules_not_found]"
    by simp_all
next
  assume "load_rules L w = Inl e"
  then have "generated L w = Inl e"
    by (simp add: generated_def and_then_def)
  then show "files (main L w) = files w"
    by (simp add: main_fields)
next
  assume "load_rules L w = Inr rules \<and> generate_all_alerts_sql L rules = Inl e"
  then have "generated L w = Inl e"
    by (simp add: generated_def and_then_def)
  then show "files (main L w) = files w"
    by (simp add: main_fields)
next
  assume a: "load_rules L w = Inr rules \<and> entry \<in> set (items_of (item rules ''alerts'')) \<and>
    generate_alert_sql L (snd entry) (item rules ''global'') = Inl e"
  with failing_alert_fails_batch[of entry rules L e] obtain e' where
    "generate_all_alerts_sql L rules = Inl e'"
    by blast
  with a have "generated L w = Inl e'"
    by (simp add: generated_def and_then_def)
  then show "files (main L w) = files w"
    by (simp add: main_fields)
qed

theorem no_output_on_failure_witness:
  "files (world_with None) rules_file = None \<and>
   files (main example_python (world_with None)) = files (world_with None) \<and>
   console (main example_python (world_with None)) = [Rules_not_found] \<and>
   load_rules example_python (world_with (Some ''garbage'')) = Inl (YAMLError ''bad'') \<and>
   files (main example_python (world_with (Some ''garbage''))) =
     files (world_with (Some ''garbage'')) \<and>
   load_rules example_python (world_with (Some ''broken'')) = Inr broken_rules \<and>
   (PStr ''second'', broken_alert) \<in> set (items_of (item broken_rules ''alerts'')) \<and>
   generate_alert_sql example_python broken_alert (item broken_rules ''global'') =
     Inl (KeyError ''threshold_value'') \<and>
   files (main example_python (world_with (Some ''broken''))) =
     files (world_with (Some ''broken''))"
proof -
  have m: "files (world_with None) rules_file = None"
    by (simp add: world_with_def)
  have b: "load_rules example_python (world_with (Some ''garbage'')) = Inl (YAMLError ''bad'')"
    by (simp add: load_rules_def world_with_def example_python_def)
  have l: "load_rules example_python (world_with (Some ''broken'')) = Inr broken_rules"
    by (simp add: load_rules_def world_with_def example_python_def)
  have i: "(PStr ''second'', broken_alert) \<in> set (items_of (item broken_rules ''alerts''))"
    by (simp add: items_of_def item_def supplies_def broken_rules_def)
  have "item broken_rules ''global'' = example_global"
    by (simp add: item_def supplies_def broken_rules_def)
  then have f: "generate_alert_sql example_python (snd (PStr ''second'', broken_alert))
      (item broken_rules ''global'') = Inl (KeyError ''threshold_value'')"
    by (simp add: generate_alert_sql_def broken_alert_def example_global_def
        example_python_def eval_simps)
  have "files (main example_python (world_with None)) = files (world_with None) \<and>
      console (main example_python (world_with None)) = console (world_with None) @ [Rules_not_found]"
    using no_output_on_failure[where w = "world_with None" and L = example_python] m
    by blast
  moreover have "console (world_with None) = []"
    by (simp add: world_with_def)
  moreover have "files (main example_python (world_with (Some ''garbage''))) =
      files (world_with (Some ''garbage''))"
    using no_output_on_failure[where w = "world_with (Some ''garbage'')" and L = example_python
        and e = "YAMLError ''bad''"] b
    by blast
  moreover have "files (main example_python (world_with (Some ''broken''))) =
      files (world_with (Some ''broken''))"
    using no_output_on_failure[where w = "world_with (Some ''broken'')" and L = example_python
        and e = "KeyError ''threshold_value''" and rules = broken_rules
        and entry = "(PStr ''second'', broken_alert)"] l i f
    by blast
  ultimately show ?thesis
    using m b l i f by simp
qed



end
